theory Spec2Isabelle
  imports Main "HOL-Library.Char_ord" "HOL-Library.List_Lexorder"
begin

section \<open>Data model of App.tsx\<close>

text \<open>
  A to-do item is the object literal \<^verbatim>\<open>{ text: inputValue, completed: false }\<close>.
  Items are JavaScript objects: arrays hold references to them, and
  \<^verbatim>\<open>updatedToDoList[index].completed = ...\<close> writes through such a reference.
  Arrays are objects too: \<^verbatim>\<open>[...toDoList]\<close> makes a new array with the same
  element references, and \<^verbatim>\<open>sort\<close> and \<^verbatim>\<open>splice\<close> write into the array they are
  called on. Both are therefore kept in an explicit store. The field \<^verbatim>\<open>text\<close> is
  written \<open>toDoText\<close> here.
\<close>

type_synonym ref = nat

record toDo =
  toDoText :: string
  completed :: bool

text \<open>
  The state of the component. The first three fields are the store: the objects, the
  arrays, and the next unused reference. The other five are the values of the five
  \<^verbatim>\<open>useState\<close> hooks of \<^verbatim>\<open>App\<close>, under the names the source gives them;
  \<^verbatim>\<open>null\<close> is \<open>None\<close>.
\<close>

record appState =
  objs :: "ref \<Rightarrow> toDo"
  arrs :: "ref \<Rightarrow> ref list"
  fresh :: ref
  toDoList :: ref
  inputValue :: string
  editIndex :: "int option"
  showCompleted :: bool
  sortBy :: "string option"

text \<open>The only exception the handlers can raise: reading a property of \<^verbatim>\<open>undefined\<close>.\<close>

datatype error = TypeError

subsection \<open>Store primitives\<close>

text \<open>An array literal or spread copy: a new array holding the given elements.\<close>

definition newArray :: "ref list \<Rightarrow> appState \<Rightarrow> ref \<times> appState" where
  "newArray xs s = (fresh s, s\<lparr>arrs := (arrs s)(fresh s := xs), fresh := Suc (fresh s)\<rparr>)"

text \<open>An object literal: a new object.\<close>

definition newObject :: "toDo \<Rightarrow> appState \<Rightarrow> ref \<times> appState" where
  "newObject v s = (fresh s, s\<lparr>objs := (objs s)(fresh s := v), fresh := Suc (fresh s)\<rparr>)"

text \<open>
  \<^verbatim>\<open>array[index]\<close> for an integer index: the element, or \<^verbatim>\<open>undefined\<close>
  (here \<open>None\<close>) when the index is negative or not below the length.
\<close>

definition elementAt :: "'a list \<Rightarrow> int \<Rightarrow> 'a option" where
  "elementAt xs index =
     (if 0 \<le> index \<and> index < int (length xs) then Some (xs ! nat index) else None)"

text \<open>
  \<^verbatim>\<open>array.splice(start, deleteCount)\<close> with no items to insert, as ECMAScript defines
  it: a negative start counts from the end, the start is clamped to the array, and the
  count is clamped to what is left. The result is the content of the array afterwards.
\<close>

definition splice :: "int \<Rightarrow> int \<Rightarrow> 'a list \<Rightarrow> 'a list" where
  "splice start deleteCount xs =
     (let len = int (length xs);
          actualStart = (if start < 0 then max (len + start) 0 else min start len);
          actualDeleteCount = min (max deleteCount 0) (len - actualStart)
      in take (nat actualStart) xs @ drop (nat (actualStart + actualDeleteCount)) xs)"

text \<open>
  \<^verbatim>\<open>array.sort(compareFn)\<close>. ECMAScript requires the sort to be stable; it is
  modelled by insertion from the right, which moves an element past a later one only
  when \<^verbatim>\<open>compareFn\<close> is positive on the pair.
\<close>

fun insertBy :: "('a \<Rightarrow> 'a \<Rightarrow> int) \<Rightarrow> 'a \<Rightarrow> 'a list \<Rightarrow> 'a list" where
  "insertBy compareFn x [] = [x]"
| "insertBy compareFn x (y # ys) =
     (if compareFn x y \<le> 0 then x # y # ys else y # insertBy compareFn x ys)"

fun sortArray :: "('a \<Rightarrow> 'a \<Rightarrow> int) \<Rightarrow> 'a list \<Rightarrow> 'a list" where
  "sortArray compareFn [] = []"
| "sortArray compareFn (x # xs) = insertBy compareFn x (sortArray compareFn xs)"

section \<open>The handlers\<close>

text \<open>\<^verbatim>\<open>useState([])\<close>, \<^verbatim>\<open>useState("")\<close>, \<^verbatim>\<open>useState(null)\<close>,
  \<^verbatim>\<open>useState(true)\<close>, \<^verbatim>\<open>useState(null)\<close>: the empty array is at reference 0.\<close>

definition initialState :: appState where
  "initialState =
     \<lparr>objs = (\<lambda>_. \<lparr>toDoText = [], completed = False\<rparr>), arrs = (\<lambda>_. []), fresh = 1,
      toDoList = 0, inputValue = [], editIndex = None, showCompleted = True,
      sortBy = None\<rparr>"

text \<open>\<^verbatim>\<open>onChangeText={(text) => setInputValue(text)}\<close>\<close>

definition setInputValue :: "string \<Rightarrow> appState \<Rightarrow> appState" where
  "setInputValue newValue s = s\<lparr>inputValue := newValue\<rparr>"

definition setEditIndex :: "int option \<Rightarrow> appState \<Rightarrow> appState" where
  "setEditIndex newIndex s = s\<lparr>editIndex := newIndex\<rparr>"

text \<open>
  A non-empty string is truthy, the empty string is not. References cannot be observed,
  so which of the object and the array the literal allocates first does not matter.
\<close>

definition handleAddToDo :: "appState \<Rightarrow> appState" where
  "handleAddToDo s =
     (if inputValue s \<noteq> [] then
        let (item, s1) = newObject \<lparr>toDoText = inputValue s, completed = False\<rparr> s;
            (newList, s2) = newArray (arrs s1 (toDoList s1) @ [item]) s1
        in s2\<lparr>toDoList := newList, inputValue := []\<rparr>
      else s)"

text \<open>
  \<^verbatim>\<open>updatedToDoList[index]\<close> is \<^verbatim>\<open>undefined\<close> when the index is out of range, and
  reading or writing \<^verbatim>\<open>.completed\<close> on it throws before \<^verbatim>\<open>setToDoList\<close> runs.
\<close>

definition handleToggleCompleted :: "int \<Rightarrow> appState \<Rightarrow> error + appState" where
  "handleToggleCompleted index s =
     (let (updatedToDoList, s1) = newArray (arrs s (toDoList s)) s in
      case elementAt (arrs s1 updatedToDoList) index of
        None \<Rightarrow> Inl TypeError
      | Some item \<Rightarrow>
          Inr (s1\<lparr>objs := (objs s1)(item := (objs s1 item)\<lparr>completed := \<not> completed (objs s1 item)\<rparr>),
                  toDoList := updatedToDoList\<rparr>))"

definition handleDeleteToDo :: "int \<Rightarrow> appState \<Rightarrow> appState" where
  "handleDeleteToDo index s =
     (let (updatedToDoList, s1) = newArray (arrs s (toDoList s)) s;
          s2 = s1\<lparr>arrs := (arrs s1)(updatedToDoList := splice index 1 (arrs s1 updatedToDoList))\<rparr>
      in s2\<lparr>toDoList := updatedToDoList\<rparr>)"

definition handleEditToDo :: "int \<Rightarrow> string \<Rightarrow> appState \<Rightarrow> error + appState" where
  "handleEditToDo index newText s =
     (let (updatedToDoList, s1) = newArray (arrs s (toDoList s)) s in
      case elementAt (arrs s1 updatedToDoList) index of
        None \<Rightarrow> Inl TypeError
      | Some item \<Rightarrow>
          Inr (setEditIndex None
                 (s1\<lparr>objs := (objs s1)(item := (objs s1 item)\<lparr>toDoText := newText\<rparr>),
                     toDoList := updatedToDoList\<rparr>)))"

definition handleToggleShowCompleted :: "appState \<Rightarrow> appState" where
  "handleToggleShowCompleted s = s\<lparr>showCompleted := \<not> showCompleted s\<rparr>"

definition handleSortByName :: "appState \<Rightarrow> appState" where
  "handleSortByName s = s\<lparr>sortBy := Some ''name''\<rparr>"

section \<open>The derived lists of a render\<close>

text \<open>
  The body of \<^verbatim>\<open>App\<close> between the handlers and the \<^verbatim>\<open>return\<close>: a copy of the list,
  sorted in place when \<^verbatim>\<open>sortBy === "name"\<close>, then filtered into a further new array.
  \<^verbatim>\<open>String.prototype.localeCompare\<close> belongs to the platform, so it is a parameter.
  The result is the reference of \<^verbatim>\<open>filteredToDoList\<close> and the store after the render.
\<close>

definition render :: "(string \<Rightarrow> string \<Rightarrow> int) \<Rightarrow> appState \<Rightarrow> ref \<times> appState" where
  "render localeCompare s =
     (let (sortedToDoList, s1) = newArray (arrs s (toDoList s)) s;
          s2 = (if sortBy s1 = Some ''name'' then
                  s1\<lparr>arrs := (arrs s1)(sortedToDoList :=
                       sortArray (\<lambda>a b. localeCompare (toDoText (objs s1 a)) (toDoText (objs s1 b)))
                         (arrs s1 sortedToDoList))\<rparr>
                else s1);
          (filteredToDoList, s3) =
             newArray (filter (\<lambda>toDo. showCompleted s2 \<or> \<not> completed (objs s2 toDo))
                         (arrs s2 sortedToDoList)) s2
      in (filteredToDoList, s3))"

text \<open>What the store holds behind an array reference: the items, in array order.\<close>

definition itemsOf :: "appState \<Rightarrow> ref \<Rightarrow> toDo list" where
  "itemsOf s a = map (objs s) (arrs s a)"

text \<open>The underlying storage: the items of \<^verbatim>\<open>toDoList\<close>.\<close>

definition underlying :: "appState \<Rightarrow> toDo list" where
  "underlying s = itemsOf s (toDoList s)"

text \<open>The displayed list: the references, and the items, that \<^verbatim>\<open>filteredToDoList.map\<close> walks.\<close>

definition displayedRefs :: "(string \<Rightarrow> string \<Rightarrow> int) \<Rightarrow> appState \<Rightarrow> ref list" where
  "displayedRefs localeCompare s = (let (filteredToDoList, s') = render localeCompare s in arrs s' filteredToDoList)"

definition displayed :: "(string \<Rightarrow> string \<Rightarrow> int) \<Rightarrow> appState \<Rightarrow> toDo list" where
  "displayed localeCompare s = (let (filteredToDoList, s') = render localeCompare s in itemsOf s' filteredToDoList)"

section \<open>User gestures\<close>

text \<open>
  The gestures the JSX wires to the handlers: typing in the input, the Add button, the
  check box, a long press on an item, typing in the edit input, the Update button, the
  X button, and the two footer buttons.
\<close>

datatype event =
    ChangeText string
  | PressAdd
  | PressCheckBox int
  | LongPress int
  | ChangeEditText int string
  | PressUpdate
  | PressDelete int
  | PressFilter
  | PressSort

fun step :: "event \<Rightarrow> appState \<Rightarrow> error + appState" where
  "step (ChangeText t) s = Inr (setInputValue t s)"
| "step PressAdd s = Inr (handleAddToDo s)"
| "step (PressCheckBox i) s = handleToggleCompleted i s"
| "step (LongPress i) s = Inr (setEditIndex (Some i) s)"
| "step (ChangeEditText i t) s = handleEditToDo i t s"
| "step PressUpdate s = Inr (setEditIndex None s)"
| "step (PressDelete i) s = Inr (handleDeleteToDo i s)"
| "step PressFilter s = Inr (handleToggleShowCompleted s)"
| "step PressSort s = Inr (handleSortByName s)"

text \<open>A session: gestures in order; an uncaught exception ends it.\<close>

fun run :: "event list \<Rightarrow> appState \<Rightarrow> error + appState" where
  "run [] s = Inr s"
| "run (e # es) s = (case step e s of Inl err \<Rightarrow> Inl err | Inr s' \<Rightarrow> run es s')"

text \<open>
  The store is well formed when the list and its elements are allocated and no object
  occurs twice in the list.
\<close>

definition wellFormed :: "appState \<Rightarrow> bool" where
  "wellFormed s \<longleftrightarrow>
     toDoList s < fresh s \<and> list_all (\<lambda>r. r < fresh s) (arrs s (toDoList s)) \<and>
     distinct (arrs s (toDoList s))"


section \<open>The comparison and the states the development runs on\<close>

text \<open>
  What ECMAScript asks of a comparison function for \<^verbatim>\<open>sort\<close> to order the array: any
  two strings compare one way or the other, and the comparison is transitive.
  A locale's collation is such a comparison.
\<close>

definition consistentCompare :: "(string \<Rightarrow> string \<Rightarrow> int) \<Rightarrow> bool" where
  "consistentCompare localeCompare \<longleftrightarrow>
     (\<forall>a b. localeCompare a b \<le> 0 \<or> localeCompare b a \<le> 0) \<and>
     (\<forall>a b c. localeCompare a b \<le> 0 \<longrightarrow> localeCompare b c \<le> 0 \<longrightarrow> localeCompare a c \<le> 0)"

text \<open>
  One such comparison, to run the model on: strings ordered by character code, as
  \<^verbatim>\<open>localeCompare\<close> orders unaccented words of one letter case.
\<close>

definition codeUnitCompare :: "string \<Rightarrow> string \<Rightarrow> int" where
  "codeUnitCompare a b = (if a < b then - 1 else if b < a then 1 else 0)"

text \<open>The state after typing and adding "Zebra", then "Apple".\<close>

definition zebraApple :: appState where
  "zebraApple =
     \<lparr>objs = (\<lambda>_. \<lparr>toDoText = [], completed = False\<rparr>)
               (1 := \<lparr>toDoText = ''Zebra'', completed = False\<rparr>,
                3 := \<lparr>toDoText = ''Apple'', completed = False\<rparr>),
      arrs = (\<lambda>_. [])(2 := [1], 4 := [1, 3]), fresh = 5,
      toDoList = 4, inputValue = [], editIndex = None, showCompleted = True,
      sortBy = None\<rparr>"

text \<open>
  The state after adding "Buy milk" and "Call Bob", ticking the first row and pressing
  "Hide Completed".
\<close>

definition milkBob :: appState where
  "milkBob =
     \<lparr>objs = (\<lambda>_. \<lparr>toDoText = [], completed = False\<rparr>)
               (1 := \<lparr>toDoText = ''Buy milk'', completed = True\<rparr>,
                3 := \<lparr>toDoText = ''Call Bob'', completed = False\<rparr>),
      arrs = (\<lambda>_. [])(2 := [1], 4 := [1, 3], 5 := [1, 3]), fresh = 6,
      toDoList = 5, inputValue = [], editIndex = None, showCompleted = False,
      sortBy = None\<rparr>"

text \<open>
  The state after adding "Pear", "Apple" and "Apple" again, ticking the second row and
  pressing "Sort by Name": two items with the same text, told apart by their flags.
\<close>

definition twoApples :: appState where
  "twoApples =
     \<lparr>objs = (\<lambda>_. \<lparr>toDoText = [], completed = False\<rparr>)
               (1 := \<lparr>toDoText = ''Pear'', completed = False\<rparr>,
                3 := \<lparr>toDoText = ''Apple'', completed = True\<rparr>,
                5 := \<lparr>toDoText = ''Apple'', completed = False\<rparr>),
      arrs = (\<lambda>_. [])(2 := [1], 4 := [1, 3], 6 := [1, 3, 5], 7 := [1, 3, 5]), fresh = 8,
      toDoList = 7, inputValue = [], editIndex = None, showCompleted = True,
      sortBy = Some ''name''\<rparr>"

section \<open>Basic facts\<close>

lemmas handler_defs = handleAddToDo_def handleToggleCompleted_def handleDeleteToDo_def
  handleEditToDo_def handleToggleShowCompleted_def handleSortByName_def setInputValue_def
  setEditIndex_def newArray_def newObject_def elementAt_def splice_def initialState_def

lemmas view_defs = displayed_def displayedRefs_def underlying_def render_def itemsOf_def

lemma zebraApple_reachable:
  "run [ChangeText ''Zebra'', PressAdd, ChangeText ''Apple'', PressAdd] initialState = Inr zebraApple"
  by (simp add: handler_defs zebraApple_def eval_nat_numeral)

lemma milkBob_reachable:
  "run [ChangeText ''Buy milk'', PressAdd, ChangeText ''Call Bob'', PressAdd, PressCheckBox 0,
        PressFilter] initialState = Inr milkBob"
  by (simp add: handler_defs milkBob_def eval_nat_numeral fun_upd_twist)

lemma twoApples_reachable:
  "run [ChangeText ''Pear'', PressAdd, ChangeText ''Apple'', PressAdd, ChangeText ''Apple'',
        PressAdd, PressCheckBox 1, PressSort] initialState = Inr twoApples"
  by (simp add: handler_defs twoApples_def eval_nat_numeral fun_upd_twist)

lemma consistent_codeUnitCompare: "consistentCompare codeUnitCompare"
  unfolding consistentCompare_def codeUnitCompare_def
  by (auto split: if_splits)

lemma length_insertBy: "length (insertBy c x ys) = Suc (length ys)"
  by (induction ys) simp_all

lemma length_sortArray: "length (sortArray c xs) = length xs"
  by (induction xs) (simp_all add: length_insertBy)

lemma set_insertBy: "set (insertBy c x ys) = insert x (set ys)"
  by (induction ys) auto

lemma set_sortArray: "set (sortArray c xs) = set xs"
  by (induction xs) (simp_all add: set_insertBy)

text \<open>What a render leaves alone: the objects, the hooks, and every array that existed.\<close>

lemma render_store:
  "render lc s = (f, s') \<Longrightarrow>
     objs s' = objs s \<and> toDoList s' = toDoList s \<and> inputValue s' = inputValue s \<and>
     editIndex s' = editIndex s \<and> showCompleted s' = showCompleted s \<and> sortBy s' = sortBy s \<and>
     fresh s' = Suc (Suc (fresh s)) \<and>
     (\<forall>a. a < fresh s \<longrightarrow> arrs s' a = arrs s a)"
  by (auto simp: render_def newArray_def Let_def split: if_splits)

text \<open>The displayed list in closed form: the copy, sorted if asked, then filtered.\<close>

lemma displayedRefs_eq:
  "displayedRefs lc s =
     filter (\<lambda>r. showCompleted s \<or> \<not> completed (objs s r))
       (if sortBy s = Some ''name''
        then sortArray (\<lambda>a b. lc (toDoText (objs s a)) (toDoText (objs s b))) (arrs s (toDoList s))
        else arrs s (toDoList s))"
  by (simp add: displayedRefs_def render_def newArray_def Let_def)

lemma displayed_eq: "displayed lc s = map (objs s) (displayedRefs lc s)"
  by (simp add: displayed_def displayedRefs_def render_def newArray_def Let_def itemsOf_def)

section \<open>The store invariant\<close>

text \<open>
  Every state a session can reach is well formed: the list and its elements were
  allocated before the next unused reference, and each \<^verbatim>\<open>add\<close> appends an object of
  its own.
\<close>

lemma wellFormed_initialState: "wellFormed initialState"
  by (simp add: wellFormed_def initialState_def)

lemma distinct_splice: "distinct xs \<Longrightarrow> distinct (splice start n xs)"
  by (auto simp: splice_def Let_def set_take_disj_set_drop_if_distinct)

lemma set_splice: "set (splice start n xs) \<subseteq> set xs"
  by (auto simp: splice_def Let_def dest: in_set_takeD in_set_dropD)

lemma step_wellFormed:
  assumes "wellFormed s" and "step e s = Inr s'"
  shows "wellFormed s'"
proof (cases e)
  case PressAdd
  with assms show ?thesis
    by (fastforce simp: wellFormed_def list_all_iff handleAddToDo_def newObject_def newArray_def
        split: if_splits)
next
  case (PressCheckBox i)
  with assms show ?thesis
    by (fastforce simp: wellFormed_def list_all_iff handleToggleCompleted_def newArray_def
        split: option.splits)
next
  case (ChangeEditText i t)
  with assms show ?thesis
    by (fastforce simp: wellFormed_def list_all_iff handleEditToDo_def setEditIndex_def newArray_def
        split: option.splits)
next
  case (PressDelete i)
  with assms set_splice[of i 1 "arrs s (toDoList s)"] show ?thesis
    by (fastforce simp: wellFormed_def list_all_iff handleDeleteToDo_def newArray_def distinct_splice)
qed (use assms in \<open>auto simp: wellFormed_def setInputValue_def setEditIndex_def
      handleToggleShowCompleted_def handleSortByName_def\<close>)

lemma run_wellFormed: "wellFormed s \<Longrightarrow> run es s = Inr s' \<Longrightarrow> wellFormed s'"
proof (induction es arbitrary: s)
  case Nil
  then show ?case by simp
next
  case (Cons e es)
  then show ?case by (auto split: sum.splits dest: step_wellFormed)
qed

section \<open>What the index-taking handlers touch\<close>

lemma map_upd_distinct:
  assumes "distinct xs" and "i < length xs"
  shows "map (f(xs ! i := v)) xs = (map f xs)[i := v]"
  using assms by (auto intro!: nth_equalityI simp: nth_list_update nth_eq_iff_index_eq)

text \<open>What the toggle handler does: it flips the item at the given position of the list itself.\<close>

lemma toggle_flips_underlying:
  assumes "wellFormed s" and "0 \<le> i" and "i < int (length (underlying s))"
  shows "map_sum id underlying (handleToggleCompleted i s) =
           Inr ((underlying s)[nat i := (underlying s ! nat i)\<lparr>completed := \<not> completed (underlying s ! nat i)\<rparr>])"
  using assms
  by (simp add: handleToggleCompleted_def newArray_def elementAt_def underlying_def itemsOf_def
      wellFormed_def map_upd_distinct)

lemma edit_replaces_underlying:
  assumes "wellFormed s" and "0 \<le> i" and "i < int (length (underlying s))"
  shows "map_sum id underlying (handleEditToDo i t s) =
           Inr ((underlying s)[nat i := (underlying s ! nat i)\<lparr>toDoText := t\<rparr>])"
  using assms
  by (simp add: handleEditToDo_def setEditIndex_def newArray_def elementAt_def underlying_def itemsOf_def
      wellFormed_def map_upd_distinct)

text \<open>
  What the delete handler does: for an index inside the list it removes the item at
  that position of the list itself and nothing else, keeping the order and the objects
  of the rest.
\<close>

lemma delete_removes_position:
  assumes "0 \<le> i" and "i < int (length (underlying s))"
  shows "arrs (handleDeleteToDo i s) (toDoList (handleDeleteToDo i s)) =
           take (nat i) (arrs s (toDoList s)) @ drop (Suc (nat i)) (arrs s (toDoList s)) \<and>
         objs (handleDeleteToDo i s) = objs s \<and>
         underlying (handleDeleteToDo i s) = take (nat i) (underlying s) @ drop (Suc (nat i)) (underlying s) \<and>
         length (underlying (handleDeleteToDo i s)) = length (underlying s) - 1"
  using assms
  by (auto simp: handleDeleteToDo_def newArray_def underlying_def itemsOf_def splice_def Let_def
      take_map drop_map nat_add_distrib min_def max_def)

lemma length_displayed_le: "length (displayed lc s) \<le> length (underlying s)"
proof -
  have "length (displayedRefs lc s) \<le> length (arrs s (toDoList s))"
    unfolding displayedRefs_eq
    by (rule order_trans[OF length_filter_le]) (simp add: length_sortArray)
  then show ?thesis by (simp add: displayed_eq underlying_def itemsOf_def)
qed

section \<open>Sorting\<close>

lemma sorted_insertBy:
  assumes total: "\<And>a b. c a b \<le> 0 \<or> c b a \<le> 0"
    and trans: "\<And>a b d. c a b \<le> 0 \<Longrightarrow> c b d \<le> 0 \<Longrightarrow> c a d \<le> 0"
    and "sorted_wrt (\<lambda>a b. c a b \<le> 0) ys"
  shows "sorted_wrt (\<lambda>a b. c a b \<le> (0::int)) (insertBy c x ys)"
  using assms(3)
proof (induction ys)
  case Nil
  then show ?case by simp
next
  case (Cons y ys)
  show ?case
  proof (cases "c x y \<le> 0")
    case True
    with Cons.prems show ?thesis by (auto intro: trans)
  next
    case False
    with total[of x y] have "c y x \<le> 0" by simp
    with False Cons show ?thesis by (auto simp: set_insertBy)
  qed
qed

lemma sorted_sortArray:
  assumes "\<And>a b. c a b \<le> 0 \<or> c b a \<le> 0"
    and "\<And>a b d. c a b \<le> 0 \<Longrightarrow> c b d \<le> 0 \<Longrightarrow> c a d \<le> 0"
  shows "sorted_wrt (\<lambda>a b. c a b \<le> (0::int)) (sortArray c xs)"
  by (induction xs) (simp_all add: sorted_insertBy[OF assms])

lemma filter_insertBy:
  assumes "\<And>y. P x \<Longrightarrow> P y \<Longrightarrow> c x y \<le> (0::int)"
  shows "filter P (insertBy c x ys) = (if P x then x # filter P ys else filter P ys)"
  using assms by (induction ys) auto

lemma filter_sortArray:
  assumes "\<And>x y. P x \<Longrightarrow> P y \<Longrightarrow> c x y \<le> (0::int)"
  shows "filter P (sortArray c xs) = filter P xs"
  by (induction xs) (simp_all add: filter_insertBy assms)

lemma step_sortBy: "sortBy s = Some ''name'' \<Longrightarrow> step e s = Inr s' \<Longrightarrow> sortBy s' = Some ''name''"
  by (cases e)
    (auto simp: handleAddToDo_def handleToggleCompleted_def handleDeleteToDo_def
      handleEditToDo_def handleToggleShowCompleted_def handleSortByName_def setInputValue_def
      setEditIndex_def newArray_def newObject_def Let_def split: option.splits if_splits)

section \<open>The claims\<close>

text \<open>
  C1. With a sort or a filter active, toggleCompleted(i) should flip the item shown at
  displayed position i. The handler indexes \<^verbatim>\<open>toDoList\<close> itself instead: with
  "Buy milk" completed and hidden, the only row shown is "Call Bob", and ticking that
  row (index 0) leaves "Call Bob" as it was and flips the hidden "Buy milk"; with
  "Zebra" added before "Apple" and the list sorted by name, row 0 shows "Apple", and
  ticking it completes "Zebra".
\<close>

theorem toggle_hits_other_item:
  "displayed lc milkBob = [\<lparr>toDoText = ''Call Bob'', completed = False\<rparr>] \<and>
   underlying milkBob = [\<lparr>toDoText = ''Buy milk'', completed = True\<rparr>,
                         \<lparr>toDoText = ''Call Bob'', completed = False\<rparr>] \<and>
   map_sum id underlying (handleToggleCompleted 0 milkBob) =
     Inr [\<lparr>toDoText = ''Buy milk'', completed = False\<rparr>,
          \<lparr>toDoText = ''Call Bob'', completed = False\<rparr>] \<and>
   displayed codeUnitCompare (handleSortByName zebraApple) =
     [\<lparr>toDoText = ''Apple'', completed = False\<rparr>, \<lparr>toDoText = ''Zebra'', completed = False\<rparr>] \<and>
   map_sum id (displayed codeUnitCompare) (handleToggleCompleted 0 (handleSortByName zebraApple)) =
     Inr [\<lparr>toDoText = ''Apple'', completed = False\<rparr>, \<lparr>toDoText = ''Zebra'', completed = True\<rparr>]"
  by (simp add: view_defs milkBob_def zebraApple_def handler_defs codeUnitCompare_def)

text \<open>
  C2, as the code has it. A gesture raises exactly when it is a tick or an edit whose
  index lies outside the list itself, and then it is a TypeError; add, delete (at any
  index) and the view settings never raise. An index of a displayed row is always
  inside the list, so the gestures the screen offers never raise.
\<close>

theorem raises_iff_out_of_range:
  "((\<exists>err. step e s = Inl err) \<longleftrightarrow>
      (\<exists>i. (e = PressCheckBox i \<or> (\<exists>t. e = ChangeEditText i t)) \<and>
           (i < 0 \<or> int (length (underlying s)) \<le> i))) \<and>
   (0 \<le> j \<and> j < int (length (displayed lc s)) \<longrightarrow>
      (\<exists>s'. handleToggleCompleted j s = Inr s') \<and> (\<exists>s'. handleEditToDo j t s = Inr s'))"
proof -
  have first: "(\<exists>err. step e s = Inl err) \<longleftrightarrow>
      (\<exists>i. (e = PressCheckBox i \<or> (\<exists>t. e = ChangeEditText i t)) \<and>
           (i < 0 \<or> int (length (underlying s)) \<le> i))"
    by (cases e)
      (auto simp: handleToggleCompleted_def handleEditToDo_def newArray_def elementAt_def
        underlying_def itemsOf_def split: option.splits if_splits)
  have second: "(\<exists>s'. handleToggleCompleted j s = Inr s') \<and> (\<exists>s'. handleEditToDo j t s = Inr s')"
    if "0 \<le> j" "j < int (length (displayed lc s))"
  proof -
    from that length_displayed_le[of lc s] have "j < int (length (arrs s (toDoList s)))"
      by (simp add: underlying_def itemsOf_def)
    with that(1) show ?thesis
      by (simp add: handleToggleCompleted_def handleEditToDo_def newArray_def elementAt_def)
  qed
  from first second show ?thesis by blast
qed

theorem raises_iff_out_of_range_witness:
  "(0::int) \<le> 1 \<and> 1 < int (length (displayed codeUnitCompare zebraApple)) \<and>
   (\<exists>s'. handleToggleCompleted 1 zebraApple = Inr s') \<and>
   (\<exists>s'. handleEditToDo 1 ''Pear'' zebraApple = Inr s')"
proof -
  have row: "(0::int) \<le> 1 \<and> 1 < int (length (displayed codeUnitCompare zebraApple))"
    by (simp add: view_defs zebraApple_def handler_defs)
  from raises_iff_out_of_range[of _ zebraApple 1 codeUnitCompare "''Pear''"] row
  show ?thesis by blast
qed

text \<open>
  C2 as stated fails: on the empty list toggleCompleted(0) raises, and so does
  editText(2, "Pear") on a list of two items.
\<close>

theorem out_of_range_raises:
  "handleToggleCompleted 0 initialState = Inl TypeError \<and>
   handleEditToDo 2 ''Pear'' zebraApple = Inl TypeError"
  by (simp add: handler_defs zebraApple_def)

text \<open>
  C3. A render never changes the underlying list: the array behind \<^verbatim>\<open>toDoList\<close>,
  the objects and the hook value are the same after it, so the underlying items and
  their insertion order are too; in particular when the render follows
  setSortMode(byName).
\<close>

theorem render_keeps_storage:
  assumes "wellFormed s"
  shows "arrs (snd (render lc s)) (toDoList s) = arrs s (toDoList s) \<and>
         objs (snd (render lc s)) = objs s \<and>
         toDoList (snd (render lc s)) = toDoList s \<and>
         underlying (snd (render lc s)) = underlying s \<and>
         underlying (snd (render lc (handleSortByName s))) = underlying s"
proof -
  obtain f s' where r: "render lc s = (f, s')" by (cases "render lc s")
  obtain g t' where r': "render lc (handleSortByName s) = (g, t')"
    by (cases "render lc (handleSortByName s)")
  from assms have wf': "toDoList s < fresh s" by (simp add: wellFormed_def)
  from render_store[OF r] wf' have plain: "arrs s' (toDoList s) = arrs s (toDoList s) \<and>
      objs s' = objs s \<and> toDoList s' = toDoList s \<and> underlying s' = underlying s"
    by (simp add: underlying_def itemsOf_def)
  from render_store[OF r'] wf' have "underlying t' = underlying s"
    by (simp add: underlying_def itemsOf_def handleSortByName_def)
  with plain r r' show ?thesis by simp
qed

theorem render_keeps_storage_witness:
  "wellFormed zebraApple \<and>
   displayed codeUnitCompare (handleSortByName zebraApple) =
     [\<lparr>toDoText = ''Apple'', completed = False\<rparr>, \<lparr>toDoText = ''Zebra'', completed = False\<rparr>] \<and>
   underlying (snd (render codeUnitCompare (handleSortByName zebraApple))) =
     [\<lparr>toDoText = ''Zebra'', completed = False\<rparr>, \<lparr>toDoText = ''Apple'', completed = False\<rparr>]"
proof -
  have wf: "wellFormed zebraApple"
    by (simp add: wellFormed_def zebraApple_def)
  have shown: "displayed codeUnitCompare (handleSortByName zebraApple) =
     [\<lparr>toDoText = ''Apple'', completed = False\<rparr>, \<lparr>toDoText = ''Zebra'', completed = False\<rparr>]"
    by (simp add: view_defs zebraApple_def handler_defs codeUnitCompare_def)
  have stored: "underlying zebraApple =
     [\<lparr>toDoText = ''Zebra'', completed = False\<rparr>, \<lparr>toDoText = ''Apple'', completed = False\<rparr>]"
    by (simp add: underlying_def itemsOf_def zebraApple_def)
  from render_keeps_storage[OF wf, of codeUnitCompare] stored wf shown show ?thesis by simp
qed

text \<open>
  C4. For a non-empty string t, add(t) (typing t, then the Add button) makes the
  underlying list exactly one longer, puts the item with text t and completed false at
  its end, and clears the pending input; in a well-formed state, which every reachable
  state is, the list is the old list followed by the new item.
\<close>

theorem add_appends:
  assumes "t \<noteq> []"
  shows "length (underlying (handleAddToDo (setInputValue t s))) = length (underlying s) + 1 \<and>
         last (underlying (handleAddToDo (setInputValue t s))) = \<lparr>toDoText = t, completed = False\<rparr> \<and>
         inputValue (handleAddToDo (setInputValue t s)) = [] \<and>
         (wellFormed s \<longrightarrow>
            underlying (handleAddToDo (setInputValue t s)) =
              underlying s @ [\<lparr>toDoText = t, completed = False\<rparr>])"
  using assms
  by (auto simp: handleAddToDo_def setInputValue_def newObject_def newArray_def underlying_def itemsOf_def
      wellFormed_def list_all_iff)

theorem add_appends_witness:
  "''Buy milk'' \<noteq> [] \<and> wellFormed zebraApple \<and>
   underlying (handleAddToDo (setInputValue ''Buy milk'' zebraApple)) =
     [\<lparr>toDoText = ''Zebra'', completed = False\<rparr>, \<lparr>toDoText = ''Apple'', completed = False\<rparr>,
      \<lparr>toDoText = ''Buy milk'', completed = False\<rparr>] \<and>
   inputValue (handleAddToDo (setInputValue ''Buy milk'' zebraApple)) = []"
proof -
  have wf: "wellFormed zebraApple" by (simp add: wellFormed_def zebraApple_def)
  have ne: "''Buy milk'' \<noteq> []" by simp
  have stored: "underlying zebraApple =
     [\<lparr>toDoText = ''Zebra'', completed = False\<rparr>, \<lparr>toDoText = ''Apple'', completed = False\<rparr>]"
    by (simp add: underlying_def itemsOf_def zebraApple_def)
  from add_appends[OF ne, of zebraApple] wf stored show ?thesis by simp
qed

text \<open>
  C5. With showCompleted false no displayed item is completed; with showCompleted
  true the displayed list is as long as the underlying list.
\<close>

theorem display_filter:
  "(\<not> showCompleted s \<longrightarrow> list_all (\<lambda>toDo. \<not> completed toDo) (displayed lc s)) \<and>
   (showCompleted s \<longrightarrow> length (displayed lc s) = length (underlying s))"
  by (simp add: displayed_eq displayedRefs_eq list_all_iff underlying_def itemsOf_def length_sortArray)

theorem display_filter_witness:
  "\<not> showCompleted milkBob \<and>
   list_all (\<lambda>toDo. \<not> completed toDo) (displayed codeUnitCompare milkBob) \<and>
   showCompleted zebraApple \<and>
   length (displayed codeUnitCompare zebraApple) = length (underlying zebraApple)"
proof -
  have hide: "\<not> showCompleted milkBob" by (simp add: milkBob_def)
  have showAll: "showCompleted zebraApple" by (simp add: zebraApple_def)
  from display_filter[of milkBob codeUnitCompare] hide
  have "list_all (\<lambda>toDo. \<not> completed toDo) (displayed codeUnitCompare milkBob)" by blast
  moreover from display_filter[of zebraApple codeUnitCompare] showAll
  have "length (displayed codeUnitCompare zebraApple) = length (underlying zebraApple)" by blast
  ultimately show ?thesis using hide showAll by blast
qed

text \<open>
  C6. delete(index) should remove exactly the item the index targets, the one shown at
  that row of the displayed list. The handler splices \<^verbatim>\<open>toDoList\<close> itself at the row
  index instead: with "Buy milk" completed and hidden, the only row shown is "Call Bob"
  (object 3), and the X button of that row (index 0) removes the hidden "Buy milk" and
  leaves "Call Bob" in the list; with "Zebra" added before "Apple" and the list sorted
  by name, row 0 shows "Apple", and its X button removes "Zebra". One item goes and the
  rest keep their order, but it is not the targeted one.
\<close>

theorem delete_hits_other_item:
  "displayed lc milkBob = [\<lparr>toDoText = ''Call Bob'', completed = False\<rparr>] \<and>
   displayedRefs lc milkBob = [3] \<and>
   underlying milkBob = [\<lparr>toDoText = ''Buy milk'', completed = True\<rparr>,
                         \<lparr>toDoText = ''Call Bob'', completed = False\<rparr>] \<and>
   arrs milkBob (toDoList milkBob) = [1, 3] \<and>
   underlying (handleDeleteToDo 0 milkBob) = [\<lparr>toDoText = ''Call Bob'', completed = False\<rparr>] \<and>
   arrs (handleDeleteToDo 0 milkBob) (toDoList (handleDeleteToDo 0 milkBob)) = [3] \<and>
   displayed codeUnitCompare (handleSortByName zebraApple) =
     [\<lparr>toDoText = ''Apple'', completed = False\<rparr>, \<lparr>toDoText = ''Zebra'', completed = False\<rparr>] \<and>
   underlying (handleDeleteToDo 0 (handleSortByName zebraApple)) =
     [\<lparr>toDoText = ''Apple'', completed = False\<rparr>]"
  by (simp add: view_defs milkBob_def zebraApple_def handler_defs codeUnitCompare_def)

text \<open>
  C7. With the sort mode "name" and a consistent comparison, the displayed list is in
  ascending order of text, and the items of any one text appear in the order they have
  in the underlying list.
\<close>

theorem sort_by_name_stable:
  assumes "consistentCompare localeCompare" and "sortBy s = Some ''name''"
  shows "sorted_wrt (\<lambda>a b. localeCompare (toDoText a) (toDoText b) \<le> 0) (displayed localeCompare s) \<and>
         (\<forall>t. filter (\<lambda>r. toDoText (objs s r) = t) (displayedRefs localeCompare s) =
              filter (\<lambda>r. toDoText (objs s r) = t)
                (filter (\<lambda>r. showCompleted s \<or> \<not> completed (objs s r)) (arrs s (toDoList s))))"
proof -
  let ?c = "\<lambda>a b. localeCompare (toDoText (objs s a)) (toDoText (objs s b))"
  let ?keep = "\<lambda>r. showCompleted s \<or> \<not> completed (objs s r)"
  have total: "\<And>a b. localeCompare a b \<le> 0 \<or> localeCompare b a \<le> 0"
    and trans: "\<And>a b d. localeCompare a b \<le> 0 \<Longrightarrow> localeCompare b d \<le> 0 \<Longrightarrow> localeCompare a d \<le> 0"
    using assms(1) unfolding consistentCompare_def by blast+
  have refl: "localeCompare a a \<le> 0" for a using total[of a a] by simp
  have "sorted_wrt (\<lambda>a b. ?c a b \<le> 0) (sortArray ?c (arrs s (toDoList s)))"
    by (rule sorted_sortArray) (use total trans in blast)+
  then have "sorted_wrt (\<lambda>a b. ?c a b \<le> 0) (displayedRefs localeCompare s)"
    by (simp add: displayedRefs_eq assms(2) sorted_wrt_filter)
  then have ordered: "sorted_wrt (\<lambda>a b. localeCompare (toDoText a) (toDoText b) \<le> 0) (displayed localeCompare s)"
    by (simp add: displayed_eq sorted_wrt_map)
  have stable: "filter (\<lambda>r. toDoText (objs s r) = t) (displayedRefs localeCompare s) =
              filter (\<lambda>r. toDoText (objs s r) = t) (filter ?keep (arrs s (toDoList s)))" for t
  proof -
    have "filter (\<lambda>r. toDoText (objs s r) = t) (sortArray ?c (arrs s (toDoList s))) =
          filter (\<lambda>r. toDoText (objs s r) = t) (arrs s (toDoList s))"
      by (rule filter_sortArray) (simp add: refl)
    then have "filter ?keep (filter (\<lambda>r. toDoText (objs s r) = t) (sortArray ?c (arrs s (toDoList s)))) =
          filter ?keep (filter (\<lambda>r. toDoText (objs s r) = t) (arrs s (toDoList s)))"
      by simp
    then show ?thesis
      by (simp add: displayedRefs_eq assms(2) conj_commute)
  qed
  from ordered stable show ?thesis by blast
qed

theorem sort_by_name_stable_witness:
  "consistentCompare codeUnitCompare \<and> sortBy twoApples = Some ''name'' \<and>
   underlying twoApples =
     [\<lparr>toDoText = ''Pear'', completed = False\<rparr>, \<lparr>toDoText = ''Apple'', completed = True\<rparr>,
      \<lparr>toDoText = ''Apple'', completed = False\<rparr>] \<and>
   sorted_wrt (\<lambda>a b. codeUnitCompare (toDoText a) (toDoText b) \<le> 0) (displayed codeUnitCompare twoApples) \<and>
   filter (\<lambda>r. toDoText (objs twoApples r) = ''Apple'') (displayedRefs codeUnitCompare twoApples) = [3, 5]"
proof -
  have mode: "sortBy twoApples = Some ''name''" by (simp add: twoApples_def)
  have stored: "underlying twoApples =
     [\<lparr>toDoText = ''Pear'', completed = False\<rparr>, \<lparr>toDoText = ''Apple'', completed = True\<rparr>,
      \<lparr>toDoText = ''Apple'', completed = False\<rparr>]"
    by (simp add: underlying_def itemsOf_def twoApples_def)
  have before: "filter (\<lambda>r. toDoText (objs twoApples r) = ''Apple'')
      (filter (\<lambda>r. showCompleted twoApples \<or> \<not> completed (objs twoApples r))
         (arrs twoApples (toDoList twoApples))) = [3, 5]"
    by (simp add: twoApples_def)
  from sort_by_name_stable[OF consistent_codeUnitCompare mode] before
  have "sorted_wrt (\<lambda>a b. codeUnitCompare (toDoText a) (toDoText b) \<le> 0) (displayed codeUnitCompare twoApples) \<and>
   filter (\<lambda>r. toDoText (objs twoApples r) = ''Apple'') (displayedRefs codeUnitCompare twoApples) = [3, 5]"
    by simp
  with consistent_codeUnitCompare mode stored show ?thesis by blast
qed

text \<open>
  C8. add("") is a silent no-op: the handler returns the state it was given, so the
  underlying list and its length are unchanged, and the gesture does not raise.
\<close>

theorem add_empty_noop:
  "handleAddToDo (setInputValue [] s) = setInputValue [] s \<and>
   underlying (handleAddToDo (setInputValue [] s)) = underlying s \<and>
   length (underlying (handleAddToDo (setInputValue [] s))) = length (underlying s) \<and>
   step PressAdd (setInputValue [] s) = Inr (setInputValue [] s)"
  by (simp add: handleAddToDo_def setInputValue_def underlying_def itemsOf_def)

theorem add_empty_noop_witness:
  "underlying (handleAddToDo (setInputValue [] zebraApple)) =
     [\<lparr>toDoText = ''Zebra'', completed = False\<rparr>, \<lparr>toDoText = ''Apple'', completed = False\<rparr>] \<and>
   step PressAdd (setInputValue [] zebraApple) = Inr (setInputValue [] zebraApple)"
proof -
  have stored: "underlying zebraApple =
     [\<lparr>toDoText = ''Zebra'', completed = False\<rparr>, \<lparr>toDoText = ''Apple'', completed = False\<rparr>]"
    by (simp add: underlying_def itemsOf_def zebraApple_def)
  from add_empty_noop[of zebraApple]
  have "underlying (handleAddToDo (setInputValue [] zebraApple)) = underlying zebraApple"
    and "step PressAdd (setInputValue [] zebraApple) = Inr (setInputValue [] zebraApple)"
    by blast+
  with stored show ?thesis by simp
qed

text \<open>
  C9. Once the sort mode is "name" it stays "name": in every state a session reaches
  from such a state, whatever the gestures, sortBy is still "name".
\<close>

theorem sort_mode_never_reset:
  "sortBy s = Some ''name'' \<Longrightarrow> run es s = Inr s' \<Longrightarrow> sortBy s' = Some ''name''"
proof (induction es arbitrary: s)
  case Nil
  then show ?case by simp
next
  case (Cons e es)
  from Cons.prems(2) obtain s1 where s1: "step e s = Inr s1" and rest: "run es s1 = Inr s'"
    by (auto split: sum.splits)
  from step_sortBy[OF Cons.prems(1) s1] have "sortBy s1 = Some ''name''" .
  from Cons.IH[OF this rest] show ?case .
qed

theorem sort_mode_never_reset_witness:
  "sortBy twoApples = Some ''name'' \<and>
   map_sum id sortBy
     (run [PressFilter, PressDelete 0, ChangeText ''Kiwi'', PressAdd, LongPress 1,
           ChangeEditText 1 ''Fig'', PressCheckBox 0, PressFilter] twoApples) =
     Inr (Some ''name'')"
proof -
  let ?es = "[PressFilter, PressDelete 0, ChangeText ''Kiwi'', PressAdd, LongPress 1,
           ChangeEditText 1 ''Fig'', PressCheckBox 0, PressFilter]"
  have mode: "sortBy twoApples = Some ''name''" by (simp add: twoApples_def)
  have "\<exists>s'. run ?es twoApples = Inr s'"
    by (simp add: handler_defs twoApples_def)
  then obtain s' where ran: "run ?es twoApples = Inr s'" ..
  from sort_mode_never_reset[OF mode ran] have "sortBy s' = Some ''name''" .
  with ran mode show ?thesis by simp
qed

text \<open>
  C10. The view-setting operations touch only their own setting: toggleShowCompleted
  flips showCompleted and setSortMode(byName) sets sortBy to "name"; the store (hence
  every item's text and completed flag and their order), the list reference, the
  pending input and the edit target are the same after either.
\<close>

theorem view_settings_frame:
  "handleToggleShowCompleted s = s\<lparr>showCompleted := \<not> showCompleted s\<rparr> \<and>
   showCompleted (handleToggleShowCompleted s) = (\<not> showCompleted s) \<and>
   sortBy (handleToggleShowCompleted s) = sortBy s \<and>
   underlying (handleToggleShowCompleted s) = underlying s \<and>
   inputValue (handleToggleShowCompleted s) = inputValue s \<and>
   editIndex (handleToggleShowCompleted s) = editIndex s \<and>
   handleSortByName s = s\<lparr>sortBy := Some ''name''\<rparr> \<and>
   sortBy (handleSortByName s) = Some ''name'' \<and>
   showCompleted (handleSortByName s) = showCompleted s \<and>
   underlying (handleSortByName s) = underlying s \<and>
   inputValue (handleSortByName s) = inputValue s \<and>
   editIndex (handleSortByName s) = editIndex s"
  by (simp add: handleToggleShowCompleted_def handleSortByName_def underlying_def itemsOf_def)

theorem view_settings_frame_witness:
  "showCompleted (handleToggleShowCompleted milkBob) \<and>
   underlying (handleToggleShowCompleted milkBob) =
     [\<lparr>toDoText = ''Buy milk'', completed = True\<rparr>, \<lparr>toDoText = ''Call Bob'', completed = False\<rparr>] \<and>
   sortBy (handleSortByName milkBob) = Some ''name'' \<and>
   underlying (handleSortByName milkBob) =
     [\<lparr>toDoText = ''Buy milk'', completed = True\<rparr>, \<lparr>toDoText = ''Call Bob'', completed = False\<rparr>]"
proof -
  have stored: "underlying milkBob =
     [\<lparr>toDoText = ''Buy milk'', completed = True\<rparr>, \<lparr>toDoText = ''Call Bob'', completed = False\<rparr>]"
    by (simp add: underlying_def itemsOf_def milkBob_def)
  have hide: "\<not> showCompleted milkBob" by (simp add: milkBob_def)
  from view_settings_frame[of milkBob]
  have "showCompleted (handleToggleShowCompleted milkBob) = (\<not> showCompleted milkBob)"
    and "underlying (handleToggleShowCompleted milkBob) = underlying milkBob"
    and "sortBy (handleSortByName milkBob) = Some ''name''"
    and "underlying (handleSortByName milkBob) = underlying milkBob"
    by blast+
  with stored hide show ?thesis by simp
qed

end
